theory Spec2Isabelle
  imports Main "HOL-Library.Sublist"
begin

section \<open>Python values, errors and string primitives\<close>

text \<open>
  Exceptions of the source are values. \<open>MissingAgentError\<close> is the plain \<open>Exception\<close>
  that \<open>Task.execute\<close> raises when no agent is resolvable; it carries the message.
  \<open>KeyError\<close> carries the missing key and \<open>AttributeError\<close> the attribute that was
  read on \<open>None\<close>.
\<close>

datatype error =
    KeyError string
  | AttributeError string
  | ValueError string
  | MissingAgentError string

text \<open>Values stored under \<open>Dict[str, Any]\<close>: \<open>None\<close> or a string.\<close>

datatype pyval = PyNone | PyStr string

text \<open>\<open>d.get(k)\<close>: \<open>None\<close> when the key is absent.\<close>

definition dict_get :: "(string \<rightharpoonup> pyval) \<Rightarrow> string \<Rightarrow> pyval" where
  "dict_get d k = (case d k of None \<Rightarrow> PyNone | Some v \<Rightarrow> v)"

text \<open>\<open>d[k]\<close>: raises \<open>KeyError\<close> when the key is absent.\<close>

definition dict_getitem :: "(string \<rightharpoonup> pyval) \<Rightarrow> string \<Rightarrow> error + pyval" where
  "dict_getitem d k = (case d k of None \<Rightarrow> Inl (KeyError k) | Some v \<Rightarrow> Inr v)"

text \<open>\<open>sub in s\<close> on strings: \<open>sub\<close> occurs in \<open>s\<close> as a contiguous substring.\<close>

fun str_in :: "string \<Rightarrow> string \<Rightarrow> bool" where
  "str_in sub [] = (sub = [])"
| "str_in sub (c # cs) = (prefix sub (c # cs) \<or> str_in sub cs)"

text \<open>\<open>sep.join(xs)\<close>.\<close>

fun str_join :: "string \<Rightarrow> string list \<Rightarrow> string" where
  "str_join sep [] = []"
| "str_join sep [x] = x"
| "str_join sep (x # y # ys) = x @ sep @ str_join sep (y # ys)"

text \<open>
  \<open>s.split(sep)\<close> for a one-character separator: one part more than there are
  separators, empty parts kept.
\<close>

fun str_split :: "char \<Rightarrow> string \<Rightarrow> string list" where
  "str_split sep [] = [[]]"
| "str_split sep (c # cs) =
     (if c = sep then [] # str_split sep cs
      else (case str_split sep cs of
              [] \<Rightarrow> [[c]]
            | p # ps \<Rightarrow> (c # p) # ps))"

text \<open>\<open>a, b, c = xs\<close>: \<open>ValueError\<close> unless \<open>xs\<close> has exactly three elements.\<close>

fun unpack3 :: "string list \<Rightarrow> error + (string \<times> string \<times> string)" where
  "unpack3 [a, b, c] = Inr (a, b, c)"
| "unpack3 xs =
     Inl (ValueError (if length xs < 3 then ''not enough values to unpack''
                      else ''too many values to unpack''))"

section \<open>Cache Store\<close>

text \<open>
  Modelled from the spec: the Cache Store (\<open>crewai.agents.cache.cache_handler.CacheHandler\<close>,
  not among the sources). Its contract is \<open>add(tool, input, output) -> void\<close>; an entry is
  keyed by the (tool, input) pair and the last write wins. \<open>add_calls\<close> is the sequence
  of \<open>add\<close> calls received, oldest first.
\<close>

record CacheHandler =
  entries :: "(pyval \<times> pyval) \<rightharpoonup> string"
  add_calls :: "(pyval \<times> pyval \<times> string) list"

definition empty_cache :: CacheHandler where
  "empty_cache = \<lparr>entries = Map.empty, add_calls = []\<rparr>"

definition add :: "CacheHandler \<Rightarrow> pyval \<Rightarrow> pyval \<Rightarrow> string \<Rightarrow> CacheHandler" where
  "add c tool inp output =
     c\<lparr>entries := (entries c)((tool, inp) \<mapsto> output),
       add_calls := add_calls c @ [(tool, inp, output)]\<rparr>"

section \<open>ToolsHandler (crewai/agents/tools\_handler.py)\<close>

record ToolsHandler =
  last_used_tool :: "string \<rightharpoonup> pyval"
  cache :: CacheHandler

text \<open>
  \<open>__init__\<close> stores the cache; \<open>last_used_tool\<close> is still the class attribute \<open>{}\<close>.
\<close>

definition ToolsHandler_init :: "CacheHandler \<Rightarrow> ToolsHandler" where
  "ToolsHandler_init c = \<lparr>last_used_tool = Map.empty, cache = c\<rparr>"

definition on_tool_start :: "ToolsHandler \<Rightarrow> (string \<rightharpoonup> pyval) \<Rightarrow> string \<Rightarrow> ToolsHandler" where
  "on_tool_start self serialized input_str =
     (let name = dict_get serialized ''name'' in
      if name \<notin> set [PyStr ''invalid_tool'', PyStr ''_Exception'']
      then self\<lparr>last_used_tool := [''tool'' \<mapsto> name, ''input'' \<mapsto> PyStr input_str]\<rparr>
      else self)"

text \<open>
  \<open>CacheTools().name\<close> is a constant of \<open>crewai.tools.cache_tools\<close>, which is not among
  the sources: it is the parameter \<open>cache_tools_name\<close>.
\<close>

definition on_tool_end :: "string \<Rightarrow> ToolsHandler \<Rightarrow> string \<Rightarrow> error + ToolsHandler" where
  "on_tool_end cache_tools_name self output =
     (if \<not> str_in ''is not a valid tool'' output
         \<and> \<not> str_in ''Invalid or incomplete response'' output
         \<and> \<not> str_in ''Invalid Format'' output
      then
        (case dict_getitem (last_used_tool self) ''tool'' of
           Inl e \<Rightarrow> Inl e
         | Inr t \<Rightarrow>
             if t \<noteq> PyStr cache_tools_name
             then
               (case dict_getitem (last_used_tool self) ''tool'' of
                  Inl e \<Rightarrow> Inl e
                | Inr tool \<Rightarrow>
                    (case dict_getitem (last_used_tool self) ''input'' of
                       Inl e \<Rightarrow> Inl e
                     | Inr inp \<Rightarrow> Inr (self\<lparr>cache := add (cache self) tool inp output\<rparr>)))
             else Inr self)
      else Inr self)"

section \<open>External collaborators of Task and AgentTools\<close>

text \<open>A tool descriptor (\<open>List[Any]\<close> in the source) is opaque; it is named by a string.\<close>

type_synonym tool = string

text \<open>
  Modelled from the spec: the execution backend (\<open>crewai.agent.Agent\<close>, not among the
  sources): a \<open>role\<close> identifier, a default \<open>tools\<close> list and
  \<open>execute_task(task, context, tools) -> string\<close>, where context and tools may be absent.
  An agent object is always truthy.
\<close>

record Agent =
  role :: string
  tools :: "tool list"
  execute_task :: "string \<Rightarrow> string option \<Rightarrow> tool list option \<Rightarrow> string"

text \<open>
  Modelled from the spec: the localization provider (\<open>crewai.utilities.I18N\<close>, not among
  the sources): \<open>errors(key)\<close> and \<open>slice(key)\<close> give a format string that accepts named
  substitution arguments. A format string is its own text (\<open>template\<close>) together with
  what \<open>.format(name=value, ...)\<close> makes of it.
\<close>

record format_string =
  template :: string
  format :: "(string \<times> string) list \<Rightarrow> string"

record I18N =
  errors :: "string \<Rightarrow> format_string"
  slice :: "string \<Rightarrow> format_string"

text \<open>
  Modelled from the spec: the result record of a task (\<open>crewai.tasks.task_output.TaskOutput\<close>,
  not among the sources): description and result text.
\<close>

record TaskOutput =
  description :: string
  result :: string

section \<open>Task (crewai/task.py)\<close>

text \<open>
  The execution handle of an asynchronous task. \<open>threading.Thread(target=self._execute,
  args=(agent, prompt, context, tools))\<close> followed by \<open>start()\<close> gives \<open>Started\<close> with the
  arguments of the target; the handle is \<open>Finished\<close> once the target has returned.
\<close>

datatype Thread =
    Started Agent string "string option" "tool list"
  | Finished

text \<open>
  What a call does to its collaborators on the calling thread: a call of an agent's
  \<open>execute_task\<close> with its arguments, and a call of a task's callback with the output.
\<close>

datatype event =
    ExecuteTask Agent string "string option" "tool list option"
  | Callback string TaskOutput

text \<open>
  The fields of \<open>Task\<close> in the order of the source; a callback is named by a string.
  The fields \<open>context\<close> and \<open>output\<close> are \<open>task_context\<close> and \<open>task_output\<close>.
  The system-generated \<open>id\<close> takes no part in execution and is left out.
\<close>

datatype Task = Task
  (i18n: I18N)
  (thread: "Thread option")
  (description: string)
  (callback: "string option")
  (agent: "Agent option")
  (expected_output: "string option")
  (task_context: "Task list option")
  (async_execution: "bool option")
  (task_output: "TaskOutput option")
  (tools: "tool list")

text \<open>Assignments to the fields that the source writes.\<close>

fun set_output :: "TaskOutput option \<Rightarrow> Task \<Rightarrow> Task" where
  "set_output v (Task i th d cb a eo cx ae ou tls) = Task i th d cb a eo cx ae v tls"

fun set_thread :: "Thread option \<Rightarrow> Task \<Rightarrow> Task" where
  "set_thread v (Task i th d cb a eo cx ae ou tls) = Task i v d cb a eo cx ae ou tls"

fun set_context :: "Task list option \<Rightarrow> Task \<Rightarrow> Task" where
  "set_context v (Task i th d cb a eo cx ae ou tls) = Task i th d cb a eo v ae ou tls"

fun set_tools :: "tool list \<Rightarrow> Task \<Rightarrow> Task" where
  "set_tools v (Task i th d cb a eo cx ae ou tls) = Task i th d cb a eo cx ae ou v"

text \<open>The model validator that runs after construction.\<close>

definition check_tools :: "Task \<Rightarrow> Task" where
  "check_tools self =
     (case Task.agent self of
        None \<Rightarrow> self
      | Some a \<Rightarrow>
          if Task.tools self = [] \<and> Agent.tools a \<noteq> []
          then set_tools (Task.tools self @ Agent.tools a) self
          else self)"

definition Task__prompt :: "Task \<Rightarrow> string" where
  "Task__prompt self =
     (case expected_output self of
        None \<Rightarrow> str_join [CHR 0x0A] [Task.description self]
      | Some eo \<Rightarrow>
          if eo \<noteq> []
          then str_join [CHR 0x0A]
                 [Task.description self,
                  format (slice (Task.i18n self) ''expected_output'') [(''expected_output'', eo)]]
          else str_join [CHR 0x0A] [Task.description self])"

text \<open>\<open>Task._execute\<close>: the result, the task with its output assigned, and the events.\<close>

definition Task__execute ::
  "Task \<Rightarrow> Agent \<Rightarrow> string \<Rightarrow> string option \<Rightarrow> tool list \<Rightarrow> string \<times> Task \<times> event list" where
  "Task__execute self agt task_prompt ctx tls =
     (let res = execute_task agt task_prompt ctx (Some tls);
          out = \<lparr>TaskOutput.description = Task.description self, result = res\<rparr>;
          self' = set_output (Some out) self
      in (res, self',
          ExecuteTask agt task_prompt ctx (Some tls) #
            (case callback self' of None \<Rightarrow> [] | Some cb \<Rightarrow> [Callback cb out])))"

text \<open>
  \<open>task.thread.join()\<close>: an \<open>AttributeError\<close> when the task has no thread; otherwise it
  returns once the target has returned, so a target that was still running has run
  to its end by then. Its events belong to the other thread and are not recorded.
\<close>

definition thread_join :: "Task \<Rightarrow> error + Task" where
  "thread_join task =
     (case thread task of
        None \<Rightarrow> Inl (AttributeError ''join'')
      | Some Finished \<Rightarrow> Inr task
      | Some (Started a p c tls) \<Rightarrow>
          (case Task__execute task a p c tls of
             (r, task', evs) \<Rightarrow> Inr (set_thread (Some Finished) task')))"

text \<open>
  The loop over \<open>self.context\<close>: \<open>ctx\<close> is the list built so far; the second component
  is the upstream tasks as the loop leaves them.
\<close>

fun gather_context :: "string list \<Rightarrow> Task list \<Rightarrow> (error + string list) \<times> Task list" where
  "gather_context ctx [] = (Inr ctx, [])"
| "gather_context ctx (task # tasks) =
     (case (if async_execution task = Some True then thread_join task else Inr task) of
        Inl e \<Rightarrow> (Inl e, task # tasks)
      | Inr task' \<Rightarrow>
          (case task_output task' of
             None \<Rightarrow> (Inl (AttributeError ''result''), task' # tasks)
           | Some out \<Rightarrow>
               (case gather_context (ctx @ [result out]) tasks of
                  (r, tasks') \<Rightarrow> (r, task' # tasks'))))"

definition no_agent_message :: "string \<Rightarrow> string" where
  "no_agent_message d =
     ''The task '' @ [CHR 0x27] @ d @ [CHR 0x27] @
     '' has no agent assigned, therefore it can'' @ [CHR 0x27] @
     ''t be executed directly and should be executed in a Crew using a specific process that support that, like hierarchical.''"

text \<open>
  \<open>Task.execute\<close>: what is raised or returned (\<open>None\<close> for an asynchronous task), the
  task afterwards, and the events on the calling thread.
\<close>

definition execute ::
  "Task \<Rightarrow> Agent option \<Rightarrow> string option \<Rightarrow> tool list option
     \<Rightarrow> (error + string option) \<times> Task \<times> event list" where
  "execute self agent_arg context_arg tools_arg =
     (case (case agent_arg of Some a \<Rightarrow> Some a | None \<Rightarrow> Task.agent self) of
        None \<Rightarrow> (Inl (MissingAgentError (no_agent_message (Task.description self))), self, [])
      | Some agt \<Rightarrow>
          (case (case task_context self of
                   None \<Rightarrow> (Inr context_arg, self)
                 | Some [] \<Rightarrow> (Inr context_arg, self)
                 | Some tasks \<Rightarrow>
                     (case gather_context [] tasks of
                        (Inl e, tasks') \<Rightarrow> (Inl e, set_context (Some tasks') self)
                      | (Inr ctx, tasks') \<Rightarrow>
                          (Inr (Some (str_join [CHR 0x0A] ctx)), set_context (Some tasks') self))) of
             (Inl e, self1) \<Rightarrow> (Inl e, self1, [])
           | (Inr ctx, self1) \<Rightarrow>
               (let tls = (case tools_arg of
                             None \<Rightarrow> Task.tools self1
                           | Some ts \<Rightarrow> if ts \<noteq> [] then ts else Task.tools self1)
                in if async_execution self1 = Some True
                   then (Inr None,
                         set_thread (Some (Started agt (Task__prompt self1) ctx tls)) self1, [])
                   else (case Task__execute self1 agt (Task__prompt self1) ctx tls of
                           (r, self2, evs) \<Rightarrow> (Inr (Some r), self2, evs)))))"

section \<open>AgentTools (crewai/tools/agent\_tools.py)\<close>

record AgentTools =
  agents :: "Agent list"
  i18n :: I18N

text \<open>
  \<open>AgentTools._execute\<close>. The \<open>try\<close> catches the \<open>ValueError\<close> of the unpacking only.
  \<open>agent.execute_task(task, context)\<close> leaves the tools argument at its default.
\<close>

definition AgentTools__execute :: "AgentTools \<Rightarrow> string \<Rightarrow> (error + string) \<times> event list" where
  "AgentTools__execute self command =
     (case unpack3 (str_split CHR ''|'' command) of
        Inl (ValueError m) \<Rightarrow>
          (Inr (template (errors (AgentTools.i18n self) ''agent_tool_missing_param'')), [])
      | Inl e \<Rightarrow> (Inl e, [])
      | Inr (agt, task, ctx) \<Rightarrow>
          if agt = [] \<or> task = [] \<or> ctx = []
          then (Inr (template (errors (AgentTools.i18n self) ''agent_tool_missing_param'')), [])
          else
            (case filter (\<lambda>available_agent. role available_agent = agt) (agents self) of
               [] \<Rightarrow>
                 (Inr (format (errors (AgentTools.i18n self) ''agent_tool_unexsiting_coworker'')
                         [(''coworkers'', str_join '', '' (map role (agents self)))]), [])
             | a # rest \<Rightarrow>
                 (Inr (execute_task a task (Some ctx) None),
                  [ExecuteTask a task (Some ctx) None])))"

definition delegate_work :: "AgentTools \<Rightarrow> string \<Rightarrow> (error + string) \<times> event list" where
  "delegate_work self command = AgentTools__execute self command"

definition ask_question :: "AgentTools \<Rightarrow> string \<Rightarrow> (error + string) \<times> event list" where
  "ask_question self command = AgentTools__execute self command"

section \<open>Observations used to state the properties\<close>

text \<open>The upstream tasks a task declares (none when \<open>context\<close> is \<open>None\<close>).\<close>

definition upstream :: "Task \<Rightarrow> Task list" where
  "upstream self = (case task_context self of None \<Rightarrow> [] | Some tasks \<Rightarrow> tasks)"

text \<open>
  The result text an upstream task holds once a dependent has waited for it: for a
  synchronous task the result of its output; for an asynchronous one the result of its
  output when its handle has finished, and what its target computes when the handle is
  still running. \<open>None\<close> when there is nothing to read (no output, or an asynchronous
  task that was never started).
\<close>

definition awaited_result :: "Task \<Rightarrow> string option" where
  "awaited_result task =
     (if async_execution task = Some True
      then (case thread task of
              None \<Rightarrow> None
            | Some Finished \<Rightarrow> map_option result (task_output task)
            | Some (Started a p c tls) \<Rightarrow> Some (execute_task a p c (Some tls)))
      else map_option result (task_output task))"

text \<open>
  The call of the backend that an outcome of \<open>execute\<close> carries: the first event of a
  synchronous execution, or the arguments held by the handle of an asynchronous one.
\<close>

definition backend_request ::
  "(error + string option) \<times> Task \<times> event list
     \<Rightarrow> (Agent \<times> string \<times> string option \<times> tool list option) option" where
  "backend_request outcome =
     (case outcome of
        (Inl e, self', evs) \<Rightarrow> None
      | (Inr None, self', evs) \<Rightarrow>
          (case thread self' of
             Some (Started a p c tls) \<Rightarrow> Some (a, p, c, Some tls)
           | _ \<Rightarrow> None)
      | (Inr (Some r), self', evs) \<Rightarrow>
          (case evs of
             ExecuteTask a p c tls # rest \<Rightarrow> Some (a, p, c, tls)
           | _ \<Rightarrow> None))"

section \<open>Example values\<close>

definition example_i18n :: I18N where
  "example_i18n =
     \<lparr>errors = (\<lambda>key. \<lparr>template = key, format = (\<lambda>args. key @ concat (map snd args))\<rparr>),
      slice = (\<lambda>key. \<lparr>template = key, format = (\<lambda>args. key @ concat (map snd args))\<rparr>)\<rparr>"

definition example_agent :: "string \<Rightarrow> string \<Rightarrow> Agent" where
  "example_agent r answer =
     \<lparr>role = r, tools = [''search''], execute_task = (\<lambda>task ctx tls. answer)\<rparr>"

definition example_upstream :: "bool \<Rightarrow> Thread option \<Rightarrow> string option \<Rightarrow> Task" where
  "example_upstream is_async th res =
     Task example_i18n th ''upstream'' None None None None (Some is_async)
       (map_option (\<lambda>r. \<lparr>TaskOutput.description = ''upstream'', result = r\<rparr>) res) []"

definition example_dependent :: "Task list \<Rightarrow> Task" where
  "example_dependent tasks =
     Task example_i18n None ''dependent'' None (Some (example_agent ''Writer'' ''W'')) None
       (Some tasks) (Some False) None []"

definition example_task :: "Agent option \<Rightarrow> tool list \<Rightarrow> Task" where
  "example_task a tls =
     Task example_i18n None ''write'' None a None None (Some False) None tls"

definition example_crew :: AgentTools where
  "example_crew =
     \<lparr>agents = [example_agent ''Writer'' ''W'', example_agent ''Researcher'' ''facts'',
                example_agent ''Researcher'' ''other''],
      i18n = example_i18n\<rparr>"

section \<open>Lemmas on the string primitives\<close>

lemma str_in_iff_sublist: "str_in sub s \<longleftrightarrow> sublist sub s"
  by (induction s) (auto simp: sublist_Cons_right)

lemma str_split_nonempty: "str_split sep s \<noteq> []"
  by (induction s) (auto split: list.splits)

lemma length_str_split: "length (str_split sep s) = Suc (count_list s sep)"
proof (induction s)
  case Nil
  show ?case by simp
next
  case (Cons c cs)
  then show ?case
    using str_split_nonempty [of sep cs] by (cases "str_split sep cs") auto
qed

lemma str_split_no_sep: "sep \<notin> set s \<Longrightarrow> str_split sep s = [s]"
  by (induction s) auto

lemma str_split_append: "sep \<notin> set a \<Longrightarrow> str_split sep (a @ sep # rest) = a # str_split sep rest"
  by (induction a) auto

lemma unpack3_length: "length xs \<noteq> 3 \<Longrightarrow> \<exists>m. unpack3 xs = Inl (ValueError m)"
  by (cases xs rule: unpack3.cases) auto

section \<open>Lemmas on AgentTools\<close>

lemma missing_param_when_malformed:
  assumes "length (str_split CHR ''|'' command) \<noteq> 3 \<or> [] \<in> set (str_split CHR ''|'' command)"
  shows "AgentTools__execute self command =
           (Inr (template (errors (AgentTools.i18n self) ''agent_tool_missing_param'')), [])"
proof (cases "length (str_split CHR ''|'' command) = 3")
  case False
  then obtain m where "unpack3 (str_split CHR ''|'' command) = Inl (ValueError m)"
    using unpack3_length by blast
  then show ?thesis by (simp add: AgentTools__execute_def)
next
  case True
  then obtain a b c where parts: "str_split CHR ''|'' command = [a, b, c]"
    by (cases "str_split CHR ''|'' command" rule: unpack3.cases) auto
  with assms have "a = [] \<or> b = [] \<or> c = []" by auto
  with parts show ?thesis by (auto simp: AgentTools__execute_def)
qed

lemma case_filter_find:
  "(case filter P xs of [] \<Rightarrow> A | a # rest \<Rightarrow> B a) = (case find P xs of None \<Rightarrow> A | Some a \<Rightarrow> B a)"
  by (induction xs) auto

lemma wellformed_split:
  assumes "CHR ''|'' \<notin> set a" "CHR ''|'' \<notin> set t" "CHR ''|'' \<notin> set c"
  shows "str_split CHR ''|'' (a @ ''|'' @ t @ ''|'' @ c) = [a, t, c]"
  using assms by (simp add: str_split_append str_split_no_sep)

lemma execute_wellformed:
  assumes "a \<noteq> []" "t \<noteq> []" "c \<noteq> []"
    and "CHR ''|'' \<notin> set a" "CHR ''|'' \<notin> set t" "CHR ''|'' \<notin> set c"
  shows "AgentTools__execute self (a @ ''|'' @ t @ ''|'' @ c) =
     (case find (\<lambda>g. role g = a) (agents self) of
        None \<Rightarrow>
          (Inr (format (errors (AgentTools.i18n self) ''agent_tool_unexsiting_coworker'')
                  [(''coworkers'', str_join '', '' (map role (agents self)))]), [])
      | Some g \<Rightarrow> (Inr (execute_task g t (Some c) None), [ExecuteTask g t (Some c) None]))"
proof -
  have parts: "str_split CHR ''|'' (a @ ''|'' @ t @ ''|'' @ c) = [a, t, c]"
    using assms(4-6) by (rule wellformed_split)
  show ?thesis
    unfolding AgentTools__execute_def parts
    using assms(1-3) by (simp add: case_filter_find)
qed

section \<open>Lemmas on Task\<close>

lemma sel_set_output [simp]:
  "thread (set_output v t) = thread t" "Task.description (set_output v t) = Task.description t"
  "callback (set_output v t) = callback t" "Task.agent (set_output v t) = Task.agent t"
  "expected_output (set_output v t) = expected_output t" "task_context (set_output v t) = task_context t"
  "async_execution (set_output v t) = async_execution t" "task_output (set_output v t) = v"
  "Task.tools (set_output v t) = Task.tools t" "Task.i18n (set_output v t) = Task.i18n t"
  by (cases t; simp)+

lemma sel_set_thread [simp]:
  "thread (set_thread v t) = v" "Task.description (set_thread v t) = Task.description t"
  "callback (set_thread v t) = callback t" "Task.agent (set_thread v t) = Task.agent t"
  "expected_output (set_thread v t) = expected_output t" "task_context (set_thread v t) = task_context t"
  "async_execution (set_thread v t) = async_execution t" "task_output (set_thread v t) = task_output t"
  "Task.tools (set_thread v t) = Task.tools t" "Task.i18n (set_thread v t) = Task.i18n t"
  by (cases t; simp)+

lemma sel_set_context [simp]:
  "thread (set_context v t) = thread t" "Task.description (set_context v t) = Task.description t"
  "callback (set_context v t) = callback t" "Task.agent (set_context v t) = Task.agent t"
  "expected_output (set_context v t) = expected_output t" "task_context (set_context v t) = v"
  "async_execution (set_context v t) = async_execution t" "task_output (set_context v t) = task_output t"
  "Task.tools (set_context v t) = Task.tools t" "Task.i18n (set_context v t) = Task.i18n t"
  by (cases t; simp)+

lemma sel_set_tools [simp]:
  "thread (set_tools v t) = thread t" "Task.description (set_tools v t) = Task.description t"
  "callback (set_tools v t) = callback t" "Task.agent (set_tools v t) = Task.agent t"
  "expected_output (set_tools v t) = expected_output t" "task_context (set_tools v t) = task_context t"
  "async_execution (set_tools v t) = async_execution t" "task_output (set_tools v t) = task_output t"
  "Task.tools (set_tools v t) = v" "Task.i18n (set_tools v t) = Task.i18n t"
  by (cases t; simp)+

lemma prompt_set_context [simp]: "Task__prompt (set_context v t) = Task__prompt t"
  by (simp add: Task__prompt_def split: option.splits)

lemma awaited_read:
  assumes "awaited_result task = Some r"
  shows "\<exists>task' out. (if async_execution task = Some True then thread_join task else Inr task) = Inr task'
            \<and> task_output task' = Some out \<and> result out = r"
proof (cases "async_execution task = Some True")
  case False
  with assms show ?thesis by (auto simp: awaited_result_def)
next
  case True
  show ?thesis
  proof (cases "thread task")
    case None
    with True assms show ?thesis by (simp add: awaited_result_def)
  next
    case (Some th)
    show ?thesis
    proof (cases th)
      case Finished
      with True Some assms show ?thesis
        by (auto simp: awaited_result_def thread_join_def)
    next
      case (Started a p c tls)
      with True Some assms show ?thesis
        by (simp add: awaited_result_def thread_join_def Task__execute_def Let_def)
    qed
  qed
qed

lemma gather_context_results:
  assumes "\<forall>t\<in>set tasks. awaited_result t \<noteq> None"
  shows "fst (gather_context ctx tasks) = Inr (ctx @ map (\<lambda>t. the (awaited_result t)) tasks)"
  using assms
proof (induction tasks arbitrary: ctx)
  case Nil
  show ?case by simp
next
  case (Cons task tasks)
  from Cons.prems obtain r where r: "awaited_result task = Some r" by auto
  from awaited_read [OF r] obtain task' out where
    rd: "(if async_execution task = Some True then thread_join task else Inr task) = Inr task'"
        "task_output task' = Some out" "result out = r"
    by blast
  have ih: "fst (gather_context (ctx @ [r]) tasks) = Inr ((ctx @ [r]) @ map (\<lambda>t. the (awaited_result t)) tasks)"
    using Cons.IH [of "ctx @ [r]"] Cons.prems by simp
  show ?case
    using rd r ih by (cases "gather_context (ctx @ [r]) tasks") simp
qed

lemma gather_context_errors:
  "gather_context ctx tasks = (Inl e, tasks') \<Longrightarrow> e = AttributeError ''join'' \<or> e = AttributeError ''result''"
proof (induction tasks arbitrary: ctx tasks')
  case Nil
  then show ?case by simp
next
  case (Cons task tasks)
  then show ?case
    by (auto simp: thread_join_def Task__execute_def Let_def
        split: if_splits sum.splits option.splits prod.splits Thread.splits)
qed

lemma execute_request:
  assumes ag: "agent_arg = Some agt \<or> (agent_arg = None \<and> Task.agent self = Some agt)"
    and up: "\<forall>t\<in>set (upstream self). awaited_result t \<noteq> None"
  shows "backend_request (execute self agent_arg context_arg tools_arg) =
           Some (agt, Task__prompt self,
                 (if upstream self = [] then context_arg
                  else Some (str_join [CHR 0x0A] (map (\<lambda>t. the (awaited_result t)) (upstream self)))),
                 Some (case tools_arg of
                         None \<Rightarrow> Task.tools self
                       | Some ts \<Rightarrow> if ts \<noteq> [] then ts else Task.tools self))"
proof -
  have res: "(case agent_arg of Some a \<Rightarrow> Some a | None \<Rightarrow> Task.agent self) = Some agt"
    using ag by auto
  show ?thesis
  proof (cases "upstream self = []")
    case True
    then have "task_context self = None \<or> task_context self = Some []"
      by (auto simp: upstream_def split: option.splits)
    then show ?thesis
      using True res
      by (auto simp: execute_def backend_request_def Task__execute_def Let_def)
  next
    case False
    then obtain t ts where cx: "task_context self = Some (t # ts)"
      by (cases "task_context self"; cases "upstream self") (auto simp: upstream_def)
    have up': "upstream self = t # ts" using cx by (simp add: upstream_def)
    obtain tasks' where g: "gather_context [] (t # ts) =
        (Inr (map (\<lambda>t. the (awaited_result t)) (t # ts)), tasks')"
      using gather_context_results [of "t # ts" "[]"] up up'
      by (cases "gather_context [] (t # ts)") auto
    show ?thesis
      using res
      unfolding execute_def cx up'
      by (simp add: g backend_request_def Task__execute_def Let_def
          del: gather_context.simps split: option.splits)
  qed
qed

lemma thread_join_thread:
  "thread_join t = Inr t' \<Longrightarrow> thread t' = Some Finished \<and> async_execution t' = async_execution t"
  by (auto simp: thread_join_def Task__execute_def Let_def split: option.splits Thread.splits)

lemma gather_context_joined:
  "gather_context ctx tasks = (Inr rs, tasks') \<Longrightarrow>
     \<forall>t'\<in>set tasks'. async_execution t' = Some True \<longrightarrow> thread t' = Some Finished"
proof (induction tasks arbitrary: ctx tasks')
  case Nil
  then show ?case by simp
next
  case (Cons task tasks)
  then show ?case
    by (auto split: if_splits sum.splits option.splits prod.splits dest: thread_join_thread)
qed

lemma execute_upstream_joined:
  assumes "execute self agent_arg context_arg tools_arg = (Inr r, self', evs)"
  shows "\<forall>t'\<in>set (upstream self'). async_execution t' = Some True \<longrightarrow> thread t' = Some Finished"
proof (cases "upstream self = []")
  case True
  then have "task_context self = None \<or> task_context self = Some []"
    by (auto simp: upstream_def split: option.splits)
  with assms have "upstream self' = []"
    by (auto simp: execute_def upstream_def Task__execute_def Let_def
        split: option.splits if_splits)
  then show ?thesis by simp
next
  case False
  then obtain t ts where cx: "task_context self = Some (t # ts)"
    by (cases "task_context self"; cases "upstream self") (auto simp: upstream_def)
  obtain g tasks' where g: "gather_context [] (t # ts) = (g, tasks')"
    by (cases "gather_context [] (t # ts)") auto
  from assms cx g obtain rs where rs: "g = Inr rs" and up: "upstream self' = tasks'"
    by (cases g)
       (auto simp: execute_def upstream_def Task__execute_def Let_def
          simp del: gather_context.simps split: option.splits if_splits)
  from gather_context_joined [of "[]" "t # ts" rs tasks'] g rs up
  show ?thesis by simp
qed

section \<open>Task.execute: context assembly\<close>

text \<open>
  Claim C1. When a task declares a non-empty list of upstream tasks, \<open>execute\<close> ignores
  the context override of the caller and rebuilds the context: it goes through the
  upstream tasks in declared order, joins the thread of each asynchronous one, reads
  its \<open>output.result\<close>, and passes the results joined by newlines to the backend.
  Stated for an execution whose agent resolves and whose upstream tasks each have a
  result to read once waited for; \<open>context_arg\<close> does not occur on the right-hand side.
  Every asynchronous upstream task has a finished thread afterwards.
\<close>

theorem execute_context_from_upstream:
  assumes "task_context self = Some tasks" and "tasks \<noteq> []"
    and "agent_arg = Some agt \<or> (agent_arg = None \<and> Task.agent self = Some agt)"
    and "\<forall>t\<in>set tasks. awaited_result t \<noteq> None"
  shows "(\<exists>p tls. backend_request (execute self agent_arg context_arg tools_arg) =
            Some (agt, p, Some (str_join [CHR 0x0A] (map (\<lambda>t. the (awaited_result t)) tasks)), tls))
         \<and> (\<forall>t'\<in>set (upstream (fst (snd (execute self agent_arg context_arg tools_arg)))).
               async_execution t' = Some True \<longrightarrow> thread t' = Some Finished)"
proof -
  have up: "upstream self = tasks" using assms(1) by (simp add: upstream_def)
  have req: "backend_request (execute self agent_arg context_arg tools_arg) =
      Some (agt, Task__prompt self,
            Some (str_join [CHR 0x0A] (map (\<lambda>t. the (awaited_result t)) tasks)),
            Some (case tools_arg of
                    None \<Rightarrow> Task.tools self
                  | Some ts \<Rightarrow> if ts \<noteq> [] then ts else Task.tools self))"
    using execute_request [of agent_arg agt self context_arg tools_arg] assms(2-4) up by simp
  obtain r self' evs where ex: "execute self agent_arg context_arg tools_arg = (r, self', evs)"
    by (cases "execute self agent_arg context_arg tools_arg") auto
  from req ex obtain v where "r = Inr v"
    by (cases r) (auto simp: backend_request_def)
  with ex execute_upstream_joined [of self agent_arg context_arg tools_arg v self' evs]
  have "\<forall>t'\<in>set (upstream self'). async_execution t' = Some True \<longrightarrow> thread t' = Some Finished"
    by simp
  with req ex show ?thesis by simp
qed

text \<open>
  The example of the claim: T1 synchronous with output A, T2 asynchronous with output
  B, once with T2 already finished and once with T2 still running when the dependent
  starts. The override \<open>ignored\<close> is dropped both times.
\<close>

theorem execute_context_from_upstream_witness:
  "(\<exists>p tls. backend_request
      (execute (example_dependent
                 [example_upstream False None (Some ''A''),
                  example_upstream True (Some Finished) (Some ''B'')])
         None (Some ''ignored'') None) =
      Some (example_agent ''Writer'' ''W'', p, Some (''A'' @ [CHR 0x0A] @ ''B''), tls))
   \<and> (\<exists>p tls. backend_request
      (execute (example_dependent
                 [example_upstream False None (Some ''A''),
                  example_upstream True
                    (Some (Started (example_agent ''Researcher'' ''B'') ''upstream'' None [])) None])
         None (Some ''ignored'') None) =
      Some (example_agent ''Writer'' ''W'', p, Some (''A'' @ [CHR 0x0A] @ ''B''), tls))"
proof -
  let ?t1 = "example_upstream False None (Some ''A'')"
  let ?t2 = "example_upstream True (Some Finished) (Some ''B'')"
  let ?t2' = "example_upstream True
                (Some (Started (example_agent ''Researcher'' ''B'') ''upstream'' None [])) None"
  have a: "awaited_result ?t1 = Some ''A''" "awaited_result ?t2 = Some ''B''"
    "awaited_result ?t2' = Some ''B''"
    by (simp_all add: awaited_result_def example_upstream_def example_agent_def)
  have c: "task_context (example_dependent ts) = Some ts"
    "Task.agent (example_dependent ts) = Some (example_agent ''Writer'' ''W'')" for ts
    by (simp_all add: example_dependent_def)
  show ?thesis
    using execute_context_from_upstream [of "example_dependent [?t1, ?t2]" "[?t1, ?t2]" None
        "example_agent ''Writer'' ''W''" "Some ''ignored''" None]
      execute_context_from_upstream [of "example_dependent [?t1, ?t2']" "[?t1, ?t2']" None
        "example_agent ''Writer'' ''W''" "Some ''ignored''" None]
    by (simp add: a c)
qed

section \<open>ToolsHandler: caching a tool call\<close>

text \<open>
  Claim C2. For a tool name outside the reserved names, \<open>on_tool_start\<close> followed by
  \<open>on_tool_end\<close> with an output that holds none of the failure signals, where the
  recorded name is not the name of the cache-lookup tool, makes exactly one \<open>add\<close> on
  the Cache Store, with the recorded tool, the recorded input and the output.
\<close>

theorem on_tool_start_end_caches_once:
  assumes "name \<notin> {''invalid_tool'', ''_Exception''}"
    and "serialized ''name'' = Some (PyStr name)"
    and "\<not> str_in ''is not a valid tool'' output"
    and "\<not> str_in ''Invalid or incomplete response'' output"
    and "\<not> str_in ''Invalid Format'' output"
    and "name \<noteq> cache_tools_name"
  shows "on_tool_end cache_tools_name (on_tool_start self serialized input_str) output =
           Inr \<lparr>last_used_tool = [''tool'' \<mapsto> PyStr name, ''input'' \<mapsto> PyStr input_str],
                 cache = add (cache self) (PyStr name) (PyStr input_str) output\<rparr>
         \<and> add_calls (add (cache self) (PyStr name) (PyStr input_str) output) =
             add_calls (cache self) @ [(PyStr name, PyStr input_str, output)]
         \<and> entries (add (cache self) (PyStr name) (PyStr input_str) output) =
             (entries (cache self))((PyStr name, PyStr input_str) \<mapsto> output)"
  using assms
  by (simp add: on_tool_end_def on_tool_start_def dict_get_def dict_getitem_def add_def)

text \<open>The Calculator example of the claim, on a fresh handler with an empty store.\<close>

theorem on_tool_start_end_caches_once_witness:
  "on_tool_end ''Hit Cache''
     (on_tool_start (ToolsHandler_init empty_cache) [''name'' \<mapsto> PyStr ''Calculator''] ''6*7'')
     ''42''
   = Inr \<lparr>last_used_tool = [''tool'' \<mapsto> PyStr ''Calculator'', ''input'' \<mapsto> PyStr ''6*7''],
          cache = \<lparr>entries = [(PyStr ''Calculator'', PyStr ''6*7'') \<mapsto> ''42''],
                    add_calls = [(PyStr ''Calculator'', PyStr ''6*7'', ''42'')]\<rparr>\<rparr>"
  using on_tool_start_end_caches_once [of "''Calculator''" "[''name'' \<mapsto> PyStr ''Calculator'']"
      "''42''" "''Hit Cache''" "ToolsHandler_init empty_cache" "''6*7''"]
  by (simp add: ToolsHandler_init_def empty_cache_def add_def)

section \<open>Task.execute: resolution of the parameters\<close>

text \<open>
  Claim C3, as amended. The agent is the override when one is supplied, else the
  attached agent. The tools are the override when it is supplied and non-empty, else
  the tools of the instance; \<open>execute\<close> itself never looks at the tools of the agent:
  validation has put the tools of the attached agent into an instance that had none.
  The context is the override only when the task declares no upstream tasks; when it
  declares some, the override is dropped and the context is rebuilt from them.
\<close>

theorem execute_resolution_order:
  assumes "agent_arg = Some agt \<or> (agent_arg = None \<and> Task.agent self = Some agt)"
    and "\<forall>t\<in>set (upstream self). awaited_result t \<noteq> None"
  shows "backend_request (execute self agent_arg context_arg tools_arg) =
           Some (agt, Task__prompt self,
                 (if upstream self = [] then context_arg
                  else Some (str_join [CHR 0x0A] (map (\<lambda>t. the (awaited_result t)) (upstream self)))),
                 Some (case tools_arg of
                         None \<Rightarrow> Task.tools self
                       | Some ts \<Rightarrow> if ts \<noteq> [] then ts else Task.tools self))
         \<and> Task.tools (check_tools self0) =
             (if Task.tools self0 \<noteq> [] then Task.tools self0
              else (case Task.agent self0 of None \<Rightarrow> [] | Some a \<Rightarrow> Agent.tools a))"
proof -
  have "Task.tools (check_tools self0) =
             (if Task.tools self0 \<noteq> [] then Task.tools self0
              else (case Task.agent self0 of None \<Rightarrow> [] | Some a \<Rightarrow> Agent.tools a))"
    by (simp add: check_tools_def split: option.splits)
  with execute_request [OF assms] show ?thesis by simp
qed

text \<open>
  A validated task without tools of its own, attached to the Writer, executed with
  the Researcher as override, a context override and an empty tools override.
\<close>

theorem execute_resolution_order_witness:
  "backend_request
     (execute (check_tools (example_task (Some (example_agent ''Writer'' ''W'')) []))
        (Some (example_agent ''Researcher'' ''facts'')) (Some ''notes'') (Some [])) =
     Some (example_agent ''Researcher'' ''facts'', ''write'', Some ''notes'', Some [''search''])"
  using execute_resolution_order
    [of "Some (example_agent ''Researcher'' ''facts'')" "example_agent ''Researcher'' ''facts''"
        "check_tools (example_task (Some (example_agent ''Writer'' ''W'')) [])"
        "Some ''notes''" "Some []"
        "example_task (Some (example_agent ''Writer'' ''W'')) []"]
  by (simp add: upstream_def check_tools_def example_task_def example_agent_def Task__prompt_def)

text \<open>
  Claim C3 as stated fails for the context: with an upstream task of output A and the
  override \<open>override\<close> supplied, the backend receives A.
\<close>

theorem context_override_counterexample:
  "map_option (\<lambda>(a, p, c, tls). c)
     (backend_request
        (execute (example_dependent [example_upstream False None (Some ''A'')])
           None (Some ''override'') None)) = Some (Some ''A'')
   \<and> map_option (\<lambda>(a, p, c, tls). c)
     (backend_request
        (execute (example_dependent [example_upstream False None (Some ''A'')])
           None (Some ''override'') None)) \<noteq> Some (Some ''override'')"
  by (simp add: execute_def backend_request_def example_dependent_def example_upstream_def
      Task__execute_def Let_def)

section \<open>Task.execute: no agent\<close>

text \<open>
  Claim C4. With no attached agent and no agent override, \<open>execute\<close> raises the
  configuration error, whatever the description: the task is as it was (no output
  assigned) and no event has happened (no backend call). With an attached agent or an
  agent override, this error is not raised.
\<close>

theorem execute_without_agent:
  "(agent_arg = None \<and> Task.agent self = None \<longrightarrow>
      execute self agent_arg context_arg tools_arg =
        (Inl (MissingAgentError (no_agent_message (Task.description self))), self, []))
   \<and> (agent_arg \<noteq> None \<or> Task.agent self \<noteq> None \<longrightarrow>
      (\<forall>m. fst (execute self agent_arg context_arg tools_arg) \<noteq> Inl (MissingAgentError m)))"
proof (intro conjI impI allI)
  assume "agent_arg = None \<and> Task.agent self = None"
  then show "execute self agent_arg context_arg tools_arg =
        (Inl (MissingAgentError (no_agent_message (Task.description self))), self, [])"
    by (simp add: execute_def)
next
  fix m
  assume "agent_arg \<noteq> None \<or> Task.agent self \<noteq> None"
  then obtain agt where
    res: "(case agent_arg of Some a \<Rightarrow> Some a | None \<Rightarrow> Task.agent self) = Some agt"
    by (cases agent_arg) auto
  show "fst (execute self agent_arg context_arg tools_arg) \<noteq> Inl (MissingAgentError m)"
  proof
    assume raised: "fst (execute self agent_arg context_arg tools_arg) = Inl (MissingAgentError m)"
    show False
    proof (cases "upstream self = []")
      case True
      then have "task_context self = None \<or> task_context self = Some []"
        by (auto simp: upstream_def split: option.splits)
      with raised res show False
        by (auto simp: execute_def Task__execute_def Let_def split: if_splits)
    next
      case False
      then obtain t ts where cx: "task_context self = Some (t # ts)"
        by (cases "task_context self"; cases "upstream self") (auto simp: upstream_def)
      obtain g tasks' where g: "gather_context [] (t # ts) = (g, tasks')"
        by (cases "gather_context [] (t # ts)") auto
      show False
      proof (cases g)
        case (Inl e)
        with g gather_context_errors [of "[]" "t # ts" e tasks']
        have "e = AttributeError ''join'' \<or> e = AttributeError ''result''" by simp
        with raised res cx g Inl show False
          by (auto simp: execute_def simp del: gather_context.simps)
      next
        case (Inr rs)
        with raised res cx g show False
          by (auto simp: execute_def Task__execute_def Let_def
              simp del: gather_context.simps split: if_splits)
      qed
    qed
  qed
qed

theorem execute_without_agent_witness:
  "execute (example_task None []) None None None =
     (Inl (MissingAgentError (no_agent_message ''write'')), example_task None [], [])
   \<and> fst (execute (example_task None []) (Some (example_agent ''Writer'' ''W'')) None None) =
       Inr (Some ''W'')"
proof -
  have d: "Task.description (example_task None []) = ''write''"
    "Task.agent (example_task None []) = None"
    by (simp_all add: example_task_def)
  have "fst (execute (example_task None []) (Some (example_agent ''Writer'' ''W'')) None None) =
      Inr (Some ''W'')"
    by (simp add: execute_def Task__execute_def Let_def example_agent_def example_task_def)
  then show ?thesis
    using execute_without_agent [of None "example_task None []" None None] by (simp add: d)
qed

section \<open>ToolsHandler: failure signals\<close>

text \<open>
  Claim C5. When the output holds one of the failure signals (\<open>Invalid Format\<close>,
  \<open>is not a valid tool\<close>, \<open>Invalid or incomplete response\<close>), \<open>on_tool_end\<close> returns
  with the handler as it was, whatever the last-used-tool record: no \<open>add\<close>, the cache
  unchanged, and no error even on an empty record.
\<close>

theorem on_tool_end_failure_signal_no_write:
  assumes "str_in ''Invalid Format'' output \<or> str_in ''is not a valid tool'' output
           \<or> str_in ''Invalid or incomplete response'' output"
  shows "on_tool_end cache_tools_name self output = Inr self"
  using assms by (auto simp: on_tool_end_def)

theorem on_tool_end_failure_signal_no_write_witness:
  "str_in ''Invalid Format'' ''Invalid Format: Missing Action''
   \<and> on_tool_end ''Hit Cache''
       (on_tool_start (ToolsHandler_init empty_cache) [''name'' \<mapsto> PyStr ''Calculator''] ''6*7'')
       ''Invalid Format: Missing Action''
     = Inr (on_tool_start (ToolsHandler_init empty_cache) [''name'' \<mapsto> PyStr ''Calculator''] ''6*7'')
   \<and> on_tool_end ''Hit Cache'' (ToolsHandler_init empty_cache) ''Invalid Format: Missing Action''
     = Inr (ToolsHandler_init empty_cache)"
proof -
  have h: "str_in ''Invalid Format'' ''Invalid Format: Missing Action''" by simp
  show ?thesis
    using h on_tool_end_failure_signal_no_write [of "''Invalid Format: Missing Action''" "''Hit Cache''"]
    by blast
qed

section \<open>AgentTools: malformed commands\<close>

text \<open>
  Claim C6. \<open>delegate_work\<close> and \<open>ask_question\<close> split the command at the separator
  \<open>|\<close>, which gives one part more than there are separators. When the command does
  not have exactly two separators (so not exactly three parts), or a part is empty,
  both return the localized missing-parameter text as their result and raise nothing.
\<close>

theorem delegation_malformed_command:
  "length (str_split CHR ''|'' command) = Suc (count_list command CHR ''|'')
   \<and> (count_list command CHR ''|'' \<noteq> 2 \<or> [] \<in> set (str_split CHR ''|'' command) \<longrightarrow>
        delegate_work self command =
          (Inr (template (errors (AgentTools.i18n self) ''agent_tool_missing_param'')), [])
        \<and> ask_question self command =
          (Inr (template (errors (AgentTools.i18n self) ''agent_tool_missing_param'')), []))"
proof (intro conjI impI)
  show len: "length (str_split CHR ''|'' command) = Suc (count_list command CHR ''|'')"
    by (rule length_str_split)
  assume "count_list command CHR ''|'' \<noteq> 2 \<or> [] \<in> set (str_split CHR ''|'' command)"
  with len have bad:
    "length (str_split CHR ''|'' command) \<noteq> 3 \<or> [] \<in> set (str_split CHR ''|'' command)"
    by auto
  show "delegate_work self command =
          (Inr (template (errors (AgentTools.i18n self) ''agent_tool_missing_param'')), [])"
    unfolding delegate_work_def by (rule missing_param_when_malformed [OF bad])
  show "ask_question self command =
          (Inr (template (errors (AgentTools.i18n self) ''agent_tool_missing_param'')), [])"
    unfolding ask_question_def by (rule missing_param_when_malformed [OF bad])
qed

text \<open>Too few parts, an empty part, and too many parts.\<close>

theorem delegation_malformed_command_witness:
  "delegate_work example_crew ''Researcher|find facts'' = (Inr ''agent_tool_missing_param'', [])
   \<and> ask_question example_crew ''Researcher||background'' = (Inr ''agent_tool_missing_param'', [])
   \<and> delegate_work example_crew ''a|b|c|d'' = (Inr ''agent_tool_missing_param'', [])"
  using delegation_malformed_command [of "''Researcher|find facts''" example_crew]
    delegation_malformed_command [of "''Researcher||background''" example_crew]
    delegation_malformed_command [of "''a|b|c|d''" example_crew]
  by (simp add: example_crew_def example_i18n_def)

section \<open>AgentTools: resolving the coworker\<close>

text \<open>
  Claim C7. For a well-formed command (three non-empty parts without the separator):
  when no agent has exactly the role asked for, the result is the localized
  unknown-coworker text formatted with the roles of all agents, and nothing is raised
  or called; otherwise \<open>execute_task\<close> of the first agent with that role is called
  with the task and the context, and its result is returned as it is.
  \<open>ask_question\<close> does the same as \<open>delegate_work\<close>.
\<close>

theorem delegation_resolves_coworker:
  assumes "agentRole \<noteq> []" "task \<noteq> []" "ctx \<noteq> []"
    and "CHR ''|'' \<notin> set agentRole" "CHR ''|'' \<notin> set task" "CHR ''|'' \<notin> set ctx"
  shows "delegate_work self (agentRole @ ''|'' @ task @ ''|'' @ ctx) =
           (case find (\<lambda>a. role a = agentRole) (agents self) of
              None \<Rightarrow>
                (Inr (format (errors (AgentTools.i18n self) ''agent_tool_unexsiting_coworker'')
                        [(''coworkers'', str_join '', '' (map role (agents self)))]), [])
            | Some a \<Rightarrow>
                (Inr (execute_task a task (Some ctx) None), [ExecuteTask a task (Some ctx) None]))
         \<and> ask_question self (agentRole @ ''|'' @ task @ ''|'' @ ctx) =
             delegate_work self (agentRole @ ''|'' @ task @ ''|'' @ ctx)"
  using execute_wellformed [OF assms, of self]
  by (simp add: delegate_work_def ask_question_def)

text \<open>
  Two agents have the role Researcher; the first one answers. No agent has the role
  Unknown.
\<close>

theorem delegation_resolves_coworker_witness:
  "delegate_work example_crew ''Researcher|find facts|background info'' =
     (Inr ''facts'',
      [ExecuteTask (example_agent ''Researcher'' ''facts'') ''find facts''
         (Some ''background info'') None])
   \<and> delegate_work example_crew ''Unknown|x|y'' =
     (Inr (''agent_tool_unexsiting_coworker'' @ ''Writer, Researcher, Researcher''), [])"
  using delegation_resolves_coworker
      [of "''Researcher''" "''find facts''" "''background info''" example_crew]
    delegation_resolves_coworker [of "''Unknown''" "''x''" "''y''" example_crew]
  by (simp add: example_crew_def example_i18n_def example_agent_def)

section \<open>Task.check\_tools\<close>

text \<open>
  Claim C8. Validation of a task with no tools and an attached agent that has tools
  leaves the task with the tools of the agent (and nothing else changed). A task with
  tools of its own, or without an agent, or with an agent without tools, is unchanged.
\<close>

theorem check_tools_inherits_agent_tools:
  "(Task.tools self = [] \<and> Task.agent self = Some a \<and> Agent.tools a \<noteq> [] \<longrightarrow>
      Task.tools (check_tools self) = Agent.tools a
      \<and> check_tools self = set_tools (Agent.tools a) self)
   \<and> (Task.tools self \<noteq> [] \<or> Task.agent self = None
        \<or> (\<exists>b. Task.agent self = Some b \<and> Agent.tools b = []) \<longrightarrow>
      check_tools self = self)"
  by (auto simp: check_tools_def split: option.splits)

theorem check_tools_inherits_agent_tools_witness:
  "Task.tools (check_tools (example_task (Some (example_agent ''Writer'' ''W'')) [])) = [''search'']
   \<and> check_tools (example_task (Some (example_agent ''Writer'' ''W'')) [''pen'']) =
       example_task (Some (example_agent ''Writer'' ''W'')) [''pen'']"
proof -
  have t: "Task.tools (example_task a tls) = tls" "Task.agent (example_task a tls) = a" for a tls
    by (simp_all add: example_task_def)
  show ?thesis
    using check_tools_inherits_agent_tools
        [of "example_task (Some (example_agent ''Writer'' ''W'')) []" "example_agent ''Writer'' ''W''"]
      check_tools_inherits_agent_tools
        [of "example_task (Some (example_agent ''Writer'' ''W'')) [''pen'']"]
    by (simp add: t example_agent_def)
qed

section \<open>ToolsHandler: the record before any tool start\<close>

text \<open>
  Claim C9. On a fresh handler, whose last-used-tool record is still the empty
  mapping, \<open>on_tool_end\<close> with an output that holds none of the failure signals raises
  the \<open>KeyError\<close> of the missing key \<open>tool\<close>; nothing is written and it does not return.
\<close>

theorem on_tool_end_fresh_handler_KeyError:
  assumes "\<not> str_in ''is not a valid tool'' output"
    and "\<not> str_in ''Invalid or incomplete response'' output"
    and "\<not> str_in ''Invalid Format'' output"
  shows "on_tool_end cache_tools_name (ToolsHandler_init c) output = Inl (KeyError ''tool'')"
  using assms by (simp add: on_tool_end_def ToolsHandler_init_def dict_getitem_def)

theorem on_tool_end_fresh_handler_KeyError_witness:
  "on_tool_end ''Hit Cache'' (ToolsHandler_init empty_cache) ''42'' = Inl (KeyError ''tool'')"
  using on_tool_end_fresh_handler_KeyError [of "''42''" "''Hit Cache''" empty_cache]
  by simp

section \<open>ToolsHandler: reserved tool names\<close>

text \<open>
  Claim C10, as amended. \<open>on_tool_start\<close> with a reserved name leaves the handler, and
  so the last-used-tool record, as it was. Hence, after a start that recorded the pair
  of a tool and an input, a start with a reserved name and an end with an output that
  holds no failure signal, the store receives that earlier pair with the new output,
  provided the recorded tool is not the cache-lookup tool. When the recorded tool is
  the cache-lookup tool, the end writes nothing, whatever the output and whatever the
  store holds: the handler and its cache are as the first start left them.
\<close>

theorem reserved_start_keeps_record:
  assumes "rname \<in> {''invalid_tool'', ''_Exception''}"
    and "reserved ''name'' = Some (PyStr rname)"
  shows "on_tool_start self reserved input_r = self
         \<and> (tname \<notin> {''invalid_tool'', ''_Exception''} \<and> serialized ''name'' = Some (PyStr tname)
              \<and> \<not> str_in ''is not a valid tool'' out
              \<and> \<not> str_in ''Invalid or incomplete response'' out
              \<and> \<not> str_in ''Invalid Format'' out
              \<and> tname \<noteq> cache_tools_name \<longrightarrow>
            on_tool_end cache_tools_name
              (on_tool_start (on_tool_start self serialized inp) reserved input_r) out =
              Inr \<lparr>last_used_tool = [''tool'' \<mapsto> PyStr tname, ''input'' \<mapsto> PyStr inp],
                    cache = add (cache self) (PyStr tname) (PyStr inp) out\<rparr>)
         \<and> (tname \<notin> {''invalid_tool'', ''_Exception''} \<and> serialized ''name'' = Some (PyStr tname)
              \<and> tname = cache_tools_name \<longrightarrow>
            on_tool_end cache_tools_name
              (on_tool_start (on_tool_start self serialized inp) reserved input_r) out =
              Inr \<lparr>last_used_tool = [''tool'' \<mapsto> PyStr tname, ''input'' \<mapsto> PyStr inp],
                    cache = cache self\<rparr>)"
proof -
  have frame: "on_tool_start h reserved input_r = h" for h
    using assms by (auto simp: on_tool_start_def dict_get_def)
  show ?thesis
    unfolding frame
    by (auto simp: on_tool_end_def on_tool_start_def dict_get_def dict_getitem_def)
qed

theorem reserved_start_keeps_record_witness:
  "on_tool_end ''Hit Cache''
     (on_tool_start
        (on_tool_start (ToolsHandler_init empty_cache) [''name'' \<mapsto> PyStr ''Calculator''] ''6*7'')
        [''name'' \<mapsto> PyStr ''_Exception''] ''boom'')
     ''42''
   = Inr \<lparr>last_used_tool = [''tool'' \<mapsto> PyStr ''Calculator'', ''input'' \<mapsto> PyStr ''6*7''],
          cache = \<lparr>entries = [(PyStr ''Calculator'', PyStr ''6*7'') \<mapsto> ''42''],
                    add_calls = [(PyStr ''Calculator'', PyStr ''6*7'', ''42'')]\<rparr>\<rparr>
   \<and> on_tool_end ''Hit Cache''
     (on_tool_start
        (on_tool_start
           (ToolsHandler_init (add empty_cache (PyStr ''Calculator'') (PyStr ''1+1'') ''2''))
           [''name'' \<mapsto> PyStr ''Hit Cache''] ''6*7'')
        [''name'' \<mapsto> PyStr ''invalid_tool''] ''x'')
     ''42''
   = Inr \<lparr>last_used_tool = [''tool'' \<mapsto> PyStr ''Hit Cache'', ''input'' \<mapsto> PyStr ''6*7''],
          cache = \<lparr>entries = [(PyStr ''Calculator'', PyStr ''1+1'') \<mapsto> ''2''],
                    add_calls = [(PyStr ''Calculator'', PyStr ''1+1'', ''2'')]\<rparr>\<rparr>"
  using reserved_start_keeps_record [of "''_Exception''" "[''name'' \<mapsto> PyStr ''_Exception'']"
      "ToolsHandler_init empty_cache" "''boom''" "''Calculator''" "[''name'' \<mapsto> PyStr ''Calculator'']"
      "''42''" "''Hit Cache''" "''6*7''"]
    reserved_start_keeps_record [of "''invalid_tool''" "[''name'' \<mapsto> PyStr ''invalid_tool'']"
      "ToolsHandler_init (add empty_cache (PyStr ''Calculator'') (PyStr ''1+1'') ''2'')" "''x''"
      "''Hit Cache''" "[''name'' \<mapsto> PyStr ''Hit Cache'']" "''42''" "''Hit Cache''" "''6*7''"]
  by (simp add: ToolsHandler_init_def empty_cache_def add_def)

text \<open>
  Claim C10 as stated fails when the recorded tool is the cache-lookup tool itself
  (here named \<open>Hit Cache\<close>): after the start with a reserved name, the end with the
  output 42 writes nothing, and the store has received no \<open>add\<close>.
\<close>

theorem stale_pair_counterexample:
  "on_tool_end ''Hit Cache''
     (on_tool_start
        (on_tool_start (ToolsHandler_init empty_cache) [''name'' \<mapsto> PyStr ''Hit Cache''] ''6*7'')
        [''name'' \<mapsto> PyStr ''invalid_tool''] ''x'')
     ''42''
   = Inr \<lparr>last_used_tool = [''tool'' \<mapsto> PyStr ''Hit Cache'', ''input'' \<mapsto> PyStr ''6*7''],
          cache = empty_cache\<rparr>
   \<and> add_calls empty_cache = []
   \<and> on_tool_end ''Hit Cache''
     (on_tool_start
        (on_tool_start (ToolsHandler_init empty_cache) [''name'' \<mapsto> PyStr ''Hit Cache''] ''6*7'')
        [''name'' \<mapsto> PyStr ''invalid_tool''] ''x'')
     ''42''
   \<noteq> Inr \<lparr>last_used_tool = [''tool'' \<mapsto> PyStr ''Hit Cache'', ''input'' \<mapsto> PyStr ''6*7''],
          cache = add empty_cache (PyStr ''Hit Cache'') (PyStr ''6*7'') ''42''\<rparr>"
  by (simp add: on_tool_end_def on_tool_start_def ToolsHandler_init_def empty_cache_def
      dict_get_def dict_getitem_def add_def)

end
